theory Spec2Isabelle
  imports Main
begin

section \<open>Browser storage and JavaScript values\<close>

text \<open>
  \<^verbatim>\<open>localStorage\<close> and \<^verbatim>\<open>sessionStorage\<close> are key-value stores of strings;
  \<^verbatim>\<open>getItem\<close> answers \<^verbatim>\<open>null\<close> (here \<open>None\<close>) for a missing key. \<open>setItem\<close> is
  a write that succeeds; the session service below also has the write that throws
  (a full store), the wallet hook's writes are taken to succeed.
\<close>

type_synonym storage = "string \<rightharpoonup> string"

definition getItem :: "storage \<Rightarrow> string \<Rightarrow> string option" where
  "getItem st k = st k"

definition setItem :: "string \<Rightarrow> string \<Rightarrow> storage \<Rightarrow> storage" where
  "setItem k v st = st(k \<mapsto> v)"

definition removeItem :: "string \<Rightarrow> storage \<Rightarrow> storage" where
  "removeItem k st = st(k := None)"

text \<open>
  A value that is \<^verbatim>\<open>null\<close> or a string. JavaScript's \<^verbatim>\<open>if (x)\<close> and \<^verbatim>\<open>!x\<close> take
  \<^verbatim>\<open>null\<close> and the empty string as false.
\<close>

definition truthy :: "string option \<Rightarrow> bool" where
  "truthy v = (case v of None \<Rightarrow> False | Some s \<Rightarrow> s \<noteq> [])"

text \<open>\<^verbatim>\<open>a || b\<close> on such values.\<close>

definition orElse :: "string option \<Rightarrow> string option \<Rightarrow> string option" where
  "orElse a b = (if truthy a then a else b)"

text \<open>Decimal digits of a number, as a template literal \<^verbatim>\<open>`${n}`\<close> prints them.\<close>

fun digitsOf :: "nat \<Rightarrow> string" where
  "digitsOf n =
     (if n < 10 then [''0123456789'' ! n]
      else digitsOf (n div 10) @ [''0123456789'' ! (n mod 10)])"

declare digitsOf.simps [simp del]

definition numberToString :: "int \<Rightarrow> string" where
  "numberToString i = (if i < 0 then CHR ''-'' # digitsOf (nat (- i)) else digitsOf (nat i))"

section \<open>The audit service\<close>

record audit_event =
  eventType :: string
  action :: string
  evWalletAddress :: "string option"
  evTimestamp :: string
  evErrorMessage :: "string option"

record browser =
  localStorage :: storage
  sessionStorage :: storage
  auditLog :: "audit_event list"

section \<open>authService.js\<close>

text \<open>
  What the service takes from its surroundings: the clock (\<^verbatim>\<open>Date.now()\<close>, in
  milliseconds, read once for a call), the built-in date printing and parsing
  (\<open>None\<close> is an invalid date), \<^verbatim>\<open>JSON.parse\<close> and \<^verbatim>\<open>JSON.stringify\<close> on profiles
  of some type \<open>'p\<close>, whether the audit sink takes delivery of an event of a given
  type, and whether \<^verbatim>\<open>localStorage.setItem\<close> throws for a key (the store is full),
  with the message of that error.
\<close>

datatype 'p parsed = SyntaxError | Parsed "'p option"

record 'p auth_env =
  now :: int
  toISOString :: "int \<Rightarrow> string"
  parseDate :: "string \<Rightarrow> int option"
  jsonParse :: "string \<Rightarrow> 'p parsed"
  jsonStringify :: "'p \<Rightarrow> string"
  profileTruthy :: "'p \<Rightarrow> bool"
  profileAddress :: "'p \<Rightarrow> string option"
  auditAccepts :: "string \<Rightarrow> bool"
  storageRejects :: "string \<Rightarrow> bool"
  storageError :: string

record 'p auth_service = browser +
  token :: "string option"
  refreshToken :: "string option"
  tokenExpiry :: "string option"
  userProfile :: "'p option"
  walletAddress :: "string option"
  isNewUserFlag :: bool

definition tokenKey :: string where "tokenKey = ''healthmint_auth_token''"
definition refreshTokenKey :: string where "refreshTokenKey = ''healthmint_refresh_token''"
definition tokenExpiryKey :: string where "tokenExpiryKey = ''healthmint_token_expiry''"
definition userProfileKey :: string where "userProfileKey = ''healthmint_user_profile''"
definition walletAddressKey :: string where "walletAddressKey = ''healthmint_wallet_address''"
definition isNewUserKey :: string where "isNewUserKey = ''healthmint_is_new_user''"

text \<open>
  Modelled from the spec: \<^verbatim>\<open>hipaaComplianceService.createAuditLog\<close> is not among the
  sources. Sections 1, 4.3 and 6: \<^verbatim>\<open>record(eventType, payload)\<close> never throws into the
  caller and cannot veto a transition; delivery may fail, and then the event is
  not recorded and the caller goes on.
\<close>

definition createAuditLog ::
  "'p auth_env \<Rightarrow> audit_event \<Rightarrow> 'p auth_service \<Rightarrow> 'p auth_service" where
  "createAuditLog env ev s =
     (if auditAccepts env (eventType ev) then s\<lparr>auditLog := auditLog s @ [ev]\<rparr> else s)"

text \<open>
  A run of \<^verbatim>\<open>localStorage.setItem\<close> calls, in order. The first one that throws ends
  the run: the answer is \<open>False\<close> and the store as the earlier writes left it.
\<close>

fun setItems :: "'p auth_env \<Rightarrow> (string \<times> string) list \<Rightarrow> storage \<Rightarrow> bool \<times> storage" where
  "setItems env [] st = (True, st)"
| "setItems env ((k, v) # kvs) st =
     (if storageRejects env k then (False, st) else setItems env kvs (setItem k v st))"

definition profileOrNull :: "'p auth_env \<Rightarrow> 'p option \<Rightarrow> bool" where
  "profileOrNull env p = (case p of None \<Rightarrow> False | Some v \<Rightarrow> profileTruthy env v)"

text \<open>
  \<^verbatim>\<open>loadAuthState\<close>. \<^verbatim>\<open>JSON.parse\<close> throws on a malformed profile string; the
  first component is then \<open>False\<close> and the fields assigned before the throw keep
  their new values.
\<close>

definition loadAuthState :: "'p auth_env \<Rightarrow> 'p auth_service \<Rightarrow> bool \<times> 'p auth_service" where
  "loadAuthState env s =
     (let ls = localStorage s;
          s1 = s\<lparr>token := getItem ls tokenKey,
                 refreshToken := getItem ls refreshTokenKey,
                 tokenExpiry := getItem ls tokenExpiryKey\<rparr>;
          rest = (\<lambda>p. s1\<lparr>userProfile := p,
                          walletAddress := getItem ls walletAddressKey,
                          isNewUserFlag := (getItem ls isNewUserKey = Some ''true'')\<rparr>)
      in case getItem ls userProfileKey of
           None \<Rightarrow> (True, rest None)
         | Some userProfileStr \<Rightarrow>
             if userProfileStr = [] then (True, rest None)
             else (case jsonParse env userProfileStr of
                     SyntaxError \<Rightarrow> (False, s1)
                   | Parsed p \<Rightarrow> (True, rest p)))"

definition isAuthenticated :: "'p auth_env \<Rightarrow> 'p auth_service \<Rightarrow> bool" where
  "isAuthenticated env s =
     (if \<not> truthy (token s) then False
      else case tokenExpiry s of
             None \<Rightarrow> True
           | Some e \<Rightarrow>
               (if e = [] then True
                else case parseDate env e of
                       None \<Rightarrow> True
                     | Some expiryDate \<Rightarrow> (if expiryDate \<le> now env then False else True)))"

definition isNewUser :: "'p auth_service \<Rightarrow> bool" where
  "isNewUser s = (isNewUserFlag s = True)"

definition isRegistrationComplete :: "'p auth_service \<Rightarrow> bool" where
  "isRegistrationComplete s = (userProfile s \<noteq> None \<and> \<not> isNewUserFlag s)"

record 'p auth_data =
  ad_token :: "string option"
  ad_refreshToken :: "string option"
  ad_expiresAt :: "string option"
  ad_userProfile :: "'p option"
  ad_isNewUser :: bool

text \<open>The write of \<^verbatim>\<open>if (v) localStorage.setItem(k, v)\<close>, if there is one.\<close>

definition writeIf :: "string \<Rightarrow> string option \<Rightarrow> (string \<times> string) list" where
  "writeIf k v = (case v of None \<Rightarrow> [] | Some x \<Rightarrow> if x = [] then [] else [(k, x)])"

text \<open>
  \<^verbatim>\<open>updateAuthState\<close>: the fields first, then the writes. The answer is \<open>False\<close>
  when a write threw; the fields then have their new values and the store has the
  writes made before the throw.
\<close>

definition updateAuthState ::
  "'p auth_env \<Rightarrow> 'p auth_data \<Rightarrow> 'p auth_service \<Rightarrow> bool \<times> 'p auth_service" where
  "updateAuthState env authData s =
     (let s1 = s\<lparr>token := ad_token authData,
                 refreshToken := ad_refreshToken authData,
                 tokenExpiry := ad_expiresAt authData,
                 userProfile := ad_userProfile authData,
                 isNewUserFlag := (ad_isNewUser authData = True)\<rparr>;
          writes = writeIf tokenKey (ad_token authData)
                   @ writeIf refreshTokenKey (ad_refreshToken authData)
                   @ writeIf tokenExpiryKey (ad_expiresAt authData)
                   @ (case ad_userProfile authData of
                        None \<Rightarrow> []
                      | Some p \<Rightarrow> if profileTruthy env p
                                 then [(userProfileKey, jsonStringify env p)] else [])
                   @ [(isNewUserKey, if isNewUserFlag s1 then ''true'' else ''false'')];
          (written, ls) = setItems env writes (localStorage s1)
      in (written, s1\<lparr>localStorage := ls\<rparr>))"

text \<open>
  \<^verbatim>\<open>getUserByWallet\<close>: the stored profile when its address is the wallet's, else the
  user saved under the wallet's own key, else \<^verbatim>\<open>null\<close> with the new-user flag set.
  A \<^verbatim>\<open>JSON.parse\<close> error is caught and answers \<^verbatim>\<open>null\<close>, and so is a throw of
  the write of the flag, after the field has been set.
\<close>

definition parseStored :: "'p auth_env \<Rightarrow> string option \<Rightarrow> 'p parsed" where
  "parseStored env str =
     (case str of None \<Rightarrow> Parsed None
      | Some x \<Rightarrow> if x = [] then Parsed None else jsonParse env x)"

definition getUserByWallet ::
  "'p auth_env \<Rightarrow> string \<Rightarrow> 'p auth_service \<Rightarrow> 'p option \<times> 'p auth_service" where
  "getUserByWallet env wa s =
     (let ls = localStorage s
      in case parseStored env (getItem ls userProfileKey) of
           SyntaxError \<Rightarrow> (None, s)
         | Parsed storedProfile \<Rightarrow>
             if (case storedProfile of
                   None \<Rightarrow> False
                 | Some p \<Rightarrow> profileTruthy env p \<and> profileAddress env p = Some wa)
             then (storedProfile, s)
             else
               (case getItem ls (''healthmint_user_'' @ wa) of
                  None \<Rightarrow> (None, s\<lparr>isNewUserFlag := True,
                                     localStorage :=
                                       snd (setItems env [(isNewUserKey, ''true'')] ls)\<rparr>)
                | Some savedUser \<Rightarrow>
                    if savedUser = []
                    then (None, s\<lparr>isNewUserFlag := True,
                                    localStorage :=
                                      snd (setItems env [(isNewUserKey, ''true'')] ls)\<rparr>)
                    else (case jsonParse env savedUser of
                            SyntaxError \<Rightarrow> (None, s)
                          | Parsed u \<Rightarrow> (u, s))))"

definition performApiLogin ::
  "'p auth_env \<Rightarrow> string \<Rightarrow> 'p auth_service \<Rightarrow> 'p auth_data \<times> 'p auth_service" where
  "performApiLogin env wa s =
     (let (profile, s1) = getUserByWallet env wa s
      in (\<lparr>ad_token = Some (''demo_token_'' @ numberToString (now env)),
           ad_refreshToken = Some (''demo_refresh_'' @ numberToString (now env)),
           ad_expiresAt = Some (toISOString env (now env + 24 * 60 * 60 * 1000)),
           ad_userProfile = profile,
           ad_isNewUser = False\<rparr>, s1))"

datatype 'p login_result =
  LoginSuccess bool bool "'p option"
  | LoginFailure string

text \<open>
  The \<^verbatim>\<open>catch\<close> of \<^verbatim>\<open>login\<close>: the failure is sent to the audit sink, and the
  answer carries \<^verbatim>\<open>error.message || "Authentication failed"\<close>.
\<close>

definition loginFailed ::
  "'p auth_env \<Rightarrow> string option \<Rightarrow> string \<Rightarrow> 'p auth_service
   \<Rightarrow> 'p login_result \<times> 'p auth_service" where
  "loginFailed env credAddress msg s =
     (LoginFailure (if msg = [] then ''Authentication failed'' else msg),
      createAuditLog env
        \<lparr>eventType = ''AUTH_FAILURE'', action = ''LOGIN'',
         evWalletAddress = orElse credAddress (walletAddress s),
         evTimestamp = toISOString env (now env),
         evErrorMessage = Some msg\<rparr> s)"

text \<open>
  The \<^verbatim>\<open>try\<close> of \<^verbatim>\<open>login\<close> from the API login on: the new credential is put in
  place, and a write that throws there goes to the \<^verbatim>\<open>catch\<close>.
\<close>

definition loginByApi ::
  "'p auth_env \<Rightarrow> string option \<Rightarrow> string \<Rightarrow> 'p auth_service
   \<Rightarrow> 'p login_result \<times> 'p auth_service" where
  "loginByApi env credAddress wa s =
     (let (authResult, s3) = performApiLogin env wa s;
          (written, s4) = updateAuthState env authResult s3
      in if \<not> written then loginFailed env credAddress (storageError env) s4
         else (LoginSuccess (ad_isNewUser authResult)
                 (ad_userProfile authResult \<noteq> None)
                 (ad_userProfile authResult),
               createAuditLog env
                 \<lparr>eventType = ''AUTH_SUCCESS'', action = ''LOGIN'',
                  evWalletAddress = Some wa,
                  evTimestamp = toISOString env (now env),
                  evErrorMessage = None\<rparr> s4))"

text \<open>
  The \<^verbatim>\<open>try\<close> of \<^verbatim>\<open>login\<close> once there is a wallet address: it is stored, the
  attempt is logged, and a credential that is still good is answered as it is.
\<close>

definition loginWith ::
  "'p auth_env \<Rightarrow> string option \<Rightarrow> string \<Rightarrow> 'p auth_service
   \<Rightarrow> 'p login_result \<times> 'p auth_service" where
  "loginWith env credAddress wa s =
     (let s0 = s\<lparr>walletAddress := Some wa\<rparr>;
          (written, ls) = setItems env [(walletAddressKey, wa)] (localStorage s0)
      in if \<not> written then loginFailed env credAddress (storageError env) s0
         else
           (let s2 = createAuditLog env
                       \<lparr>eventType = ''AUTH_ATTEMPT'', action = ''LOGIN'',
                        evWalletAddress = Some wa,
                        evTimestamp = toISOString env (now env),
                        evErrorMessage = None\<rparr> (s0\<lparr>localStorage := ls\<rparr>)
            in if isAuthenticated env s2 \<and> profileOrNull env (userProfile s2)
               then (LoginSuccess (isNewUser s2) (isRegistrationComplete s2) (userProfile s2),
                     s2)
               else loginByApi env credAddress wa s2))"

text \<open>\<^verbatim>\<open>login(credentials)\<close>, with \<open>credAddress\<close> for \<^verbatim>\<open>credentials.address\<close>.\<close>

definition login ::
  "'p auth_env \<Rightarrow> string option \<Rightarrow> 'p auth_service \<Rightarrow> 'p login_result \<times> 'p auth_service" where
  "login env credAddress s =
     (case orElse credAddress (walletAddress s) of
        None \<Rightarrow> loginFailed env credAddress ''Wallet address is required for authentication'' s
      | Some wa \<Rightarrow>
          if wa = []
          then loginFailed env credAddress ''Wallet address is required for authentication'' s
          else loginWith env credAddress wa s)"

text \<open>
  \<^verbatim>\<open>logout\<close>: the event goes to the audit sink, the five keys are removed and the
  fields are cleared. Nothing in its \<^verbatim>\<open>try\<close> throws (\<^verbatim>\<open>removeItem\<close> does not), so
  the answer is \<^verbatim>\<open>true\<close>.
\<close>

definition logout :: "'p auth_env \<Rightarrow> 'p auth_service \<Rightarrow> bool \<times> 'p auth_service" where
  "logout env s =
     (let s1 = createAuditLog env
                 \<lparr>eventType = ''AUTH_LOGOUT'', action = ''LOGOUT'',
                  evWalletAddress = walletAddress s,
                  evTimestamp = toISOString env (now env),
                  evErrorMessage = None\<rparr> s
      in (True,
          s1\<lparr>localStorage :=
               removeItem isNewUserKey (removeItem userProfileKey
                 (removeItem tokenExpiryKey (removeItem refreshTokenKey
                   (removeItem tokenKey (localStorage s1))))),
             token := None,
             refreshToken := None,
             tokenExpiry := None,
             userProfile := None,
             isNewUserFlag := False\<rparr>))"

definition verifyToken :: "'p auth_env \<Rightarrow> 'p auth_service \<Rightarrow> bool" where
  "verifyToken env s =
     (if \<not> truthy (token s) then False
      else case tokenExpiry s of
             None \<Rightarrow> True
           | Some e \<Rightarrow>
               (if e = [] then True
                else case parseDate env e of
                       None \<Rightarrow> True
                     | Some expiryDate \<Rightarrow> (if expiryDate \<le> now env then False else True)))"

text \<open>
  \<^verbatim>\<open>refreshAuthToken\<close>: without a refresh token it answers \<^verbatim>\<open>false\<close> at once.
  Otherwise the three fields are assigned, then the three writes are made; a
  write that throws goes to the \<^verbatim>\<open>catch\<close>, which answers \<^verbatim>\<open>false\<close>.
\<close>

definition refreshAuthToken :: "'p auth_env \<Rightarrow> 'p auth_service \<Rightarrow> bool \<times> 'p auth_service" where
  "refreshAuthToken env s =
     (if \<not> truthy (refreshToken s) then (False, s)
      else
        (let newToken = ''demo_token_'' @ numberToString (now env);
             newRefreshToken = ''demo_refresh_'' @ numberToString (now env);
             newExpiry = toISOString env (now env + 24 * 60 * 60 * 1000);
             s1 = s\<lparr>token := Some newToken,
                     refreshToken := Some newRefreshToken,
                     tokenExpiry := Some newExpiry\<rparr>;
             (written, ls) = setItems env
                 [(tokenKey, newToken), (refreshTokenKey, newRefreshToken),
                  (tokenExpiryKey, newExpiry)] (localStorage s1)
         in (written, s1\<lparr>localStorage := ls\<rparr>)))"

text \<open>
  The expiry instant of the held credential: the parsed expiry, when there is a
  non-empty expiry string and it is a valid date.
\<close>

definition expiryInstant :: "'p auth_env \<Rightarrow> 'p auth_service \<Rightarrow> int option" where
  "expiryInstant env s =
     (case tokenExpiry s of
        None \<Rightarrow> None
      | Some e \<Rightarrow> if e = [] then None else parseDate env e)"

text \<open>
  Modelled from the spec: \<^verbatim>\<open>ensureValidToken\<close> is called by userService.js and
  defined in none of the sources. Section 4.2: if no credential exists or
  \<^verbatim>\<open>expiresAt\<close> is at or before now, it attempts refresh, then login, before
  returning; it fails with \<^verbatim>\<open>AuthenticationRequired\<close> if no wallet identity is
  available at all. Refresh and login are the service's own \<open>refreshAuthToken\<close> and
  \<open>login\<close>. The answer is the service holding the credential.
\<close>

datatype auth_error = AuthenticationRequired | LoginRejected string

definition ensureValidToken ::
  "'p auth_env \<Rightarrow> 'p auth_service \<Rightarrow> auth_error + 'p auth_service" where
  "ensureValidToken env s =
     (if truthy (token s)
         \<and> \<not> (case expiryInstant env s of None \<Rightarrow> False | Some t \<Rightarrow> t \<le> now env)
      then Inr s
      else case refreshAuthToken env s of
             (True, s1) \<Rightarrow> Inr s1
           | (False, s1) \<Rightarrow>
               if \<not> truthy (walletAddress s1) then Inl AuthenticationRequired
               else (case login env None s1 of
                       (LoginSuccess _ _ _, s2) \<Rightarrow> Inr s2
                     | (LoginFailure msg, s2) \<Rightarrow> Inl (LoginRejected msg)))"

text \<open>
  The pairing of token and expiry: each is set exactly when the other is, in the
  service's fields and under the two storage keys.
\<close>

definition storedTogether :: "storage \<Rightarrow> bool" where
  "storedTogether st = ((getItem st tokenKey = None) = (getItem st tokenExpiryKey = None))"

definition heldTogether :: "'p auth_service \<Rightarrow> bool" where
  "heldTogether s = ((token s = None) = (tokenExpiry s = None))"

definition setTogether :: "'p auth_service \<Rightarrow> bool" where
  "setTogether s = (heldTogether s \<and> storedTogether (localStorage s))"

text \<open>The credential that a login or a refresh at the time of \<open>env\<close> issues.\<close>

definition issued :: "'p auth_env \<Rightarrow> 'p auth_service \<Rightarrow> bool" where
  "issued env s =
     (token s = Some (''demo_token_'' @ numberToString (now env))
      \<and> tokenExpiry s = Some (toISOString env (now env + 24 * 60 * 60 * 1000)))"

section \<open>useWalletConnect.js\<close>

text \<open>
  A network descriptor; a field the object does not have (\<^verbatim>\<open>undefined\<close>) is
  \<open>None\<close>.
\<close>

record network =
  netName :: "string option"
  isSupported :: "bool option"
  netChainId :: "string option"

text \<open>
  The names that every object literal inherits: \<^verbatim>\<open>networks[chainId]\<close> finds a
  truthy value under them, whose spread has no property.
\<close>

definition objectPrototypeMembers :: "string list" where
  "objectPrototypeMembers =
     [''constructor'', ''__defineGetter__'', ''__defineSetter__'', ''hasOwnProperty'',
      ''__lookupGetter__'', ''__lookupSetter__'', ''isPrototypeOf'',
      ''propertyIsEnumerable'', ''toString'', ''valueOf'', ''__proto__'',
      ''toLocaleString'']"

definition getNetworkFromChainId :: "string option \<Rightarrow> network" where
  "getNetworkFromChainId chainId =
     (case chainId of
        None \<Rightarrow> \<lparr>netName = Some ''Unknown'', isSupported = Some False, netChainId = None\<rparr>
      | Some c \<Rightarrow>
          if c = []
          then \<lparr>netName = Some ''Unknown'', isSupported = Some False, netChainId = None\<rparr>
          else if c = ''0x1''
          then \<lparr>netName = Some ''Ethereum Mainnet'', isSupported = Some True,
                netChainId = Some c\<rparr>
          else if c = ''0xaa36a7''
          then \<lparr>netName = Some ''Sepolia Testnet'', isSupported = Some True,
                netChainId = Some c\<rparr>
          else if c = ''0x5''
          then \<lparr>netName = Some ''Goerli Testnet'', isSupported = Some False,
                netChainId = Some c\<rparr>
          else if c = ''0x539''
          then \<lparr>netName = Some ''Local Development'', isSupported = Some True,
                netChainId = Some c\<rparr>
          else if c \<in> set objectPrototypeMembers
          then \<lparr>netName = None, isSupported = None, netChainId = Some c\<rparr>
          else \<lparr>netName = Some (''Unknown Network ('' @ c @ '')''), isSupported = Some False,
                netChainId = Some c\<rparr>)"

text \<open>\<^verbatim>\<open>n.toString(16)\<close> on a chain id.\<close>

fun hexDigits :: "nat \<Rightarrow> string" where
  "hexDigits n =
     (if n < 16 then [''0123456789abcdef'' ! n]
      else hexDigits (n div 16) @ [''0123456789abcdef'' ! (n mod 16)])"

declare hexDigits.simps [simp del]

subsection \<open>The Redux store\<close>

text \<open>\<^verbatim>\<open>String.prototype.toLowerCase\<close> on the letters A to Z.\<close>

definition lowerChar :: "char \<Rightarrow> char" where
  "lowerChar c =
     (case map_of (zip ''ABCDEFGHIJKLMNOPQRSTUVWXYZ'' ''abcdefghijklmnopqrstuvwxyz'') c of
        None \<Rightarrow> c
      | Some l \<Rightarrow> l)"

definition toLowerCase :: "string \<Rightarrow> string" where
  "toLowerCase a = map lowerChar a"

record wallet_state =
  address :: "string option"
  chainId :: "string option"
  isConnected :: bool
  walletNetwork :: "network option"
  walletType :: "string option"
  lastConnected :: "int option"

text \<open>A field of an action's payload: left out of the object literal, or given.\<close>

datatype 'a field = Absent | Given 'a

record wallet_payload =
  p_address :: "string option field"
  p_chainId :: "string field"
  p_isConnected :: "bool field"
  p_network :: "network option field"
  p_walletType :: "string field"
  p_lastConnected :: "int field"

definition noFields :: wallet_payload where
  "noFields = \<lparr>p_address = Absent, p_chainId = Absent, p_isConnected = Absent,
               p_network = Absent, p_walletType = Absent, p_lastConnected = Absent\<rparr>"

record notification =
  ntype :: string
  message :: string
  duration :: "int option"

datatype action =
  UpdateWalletConnection wallet_payload
  | SetWalletConnection wallet_payload
  | ClearWalletConnection
  | UpdateUserProfile string
  | AddNotification notification

record wallet_hook = browser +
  wallet :: wallet_state
  userAddress :: "string option"
  notifications :: "notification list"
  loading :: bool
  error :: "string option"
  isConnecting :: bool
  isInitialized :: bool
  isActive :: bool

definition given :: "'a field \<Rightarrow> 'a \<Rightarrow> 'a" where
  "given f old = (case f of Absent \<Rightarrow> old | Given v \<Rightarrow> v)"

definition mergePayload :: "wallet_payload \<Rightarrow> wallet_state \<Rightarrow> wallet_state" where
  "mergePayload p w =
     \<lparr>address = (case p_address p of
                   Absent \<Rightarrow> address w
                 | Given a \<Rightarrow> map_option toLowerCase a),
      chainId = (case p_chainId p of Absent \<Rightarrow> chainId w | Given c \<Rightarrow> Some c),
      isConnected = given (p_isConnected p) (isConnected w),
      walletNetwork = given (p_network p) (walletNetwork w),
      walletType = (case p_walletType p of Absent \<Rightarrow> walletType w | Given t \<Rightarrow> Some t),
      lastConnected = (case p_lastConnected p of Absent \<Rightarrow> lastConnected w
                       | Given t \<Rightarrow> Some t)\<rparr>"

definition clearedWallet :: wallet_state where
  "clearedWallet = \<lparr>address = None, chainId = None, isConnected = False,
                    walletNetwork = None, walletType = None, lastConnected = None\<rparr>"

text \<open>
  Modelled from the spec: the slices redux/slices/walletSlice.js, userSlice.js and
  notificationSlice.js are not among the sources. Sections 3 and 4.1: an update
  changes the given fields of the wallet identity in place, the address of the
  identity is kept lowercased, clearing the connection clears the identity and
  leaves the wallet disconnected; a profile update records the address, and a
  notification is queued.
\<close>

definition dispatch :: "action \<Rightarrow> wallet_hook \<Rightarrow> wallet_hook" where
  "dispatch a s =
     (case a of
        UpdateWalletConnection p \<Rightarrow> s\<lparr>wallet := mergePayload p (wallet s)\<rparr>
      | SetWalletConnection p \<Rightarrow> s\<lparr>wallet := mergePayload p (wallet s)\<rparr>
      | ClearWalletConnection \<Rightarrow> s\<lparr>wallet := clearedWallet\<rparr>
      | UpdateUserProfile a \<Rightarrow> s\<lparr>userAddress := Some a\<rparr>
      | AddNotification n \<Rightarrow> s\<lparr>notifications := notifications s @ [n]\<rparr>)"

subsection \<open>The wallet provider\<close>

text \<open>
  \<^verbatim>\<open>window.ethereum\<close>, when there is one: what \<^verbatim>\<open>eth_requestAccounts\<close> answers
  (an error, \<^verbatim>\<open>null\<close> or a list of accounts), what \<^verbatim>\<open>getNetwork()\<close> answers (an
  error or the chain id), and what a disconnect would do.
\<close>

record js_error =
  code :: "int option"
  errMessage :: "string option"

record provider =
  requestAccounts :: "js_error + string list option"
  getNetwork :: "js_error + nat"
  hasDisconnect :: bool
  disconnectRejects :: bool
  isMetaMask :: bool

record wallet_env =
  ethereum :: "provider option"
  dateNow :: int

datatype connect_result =
  ConnectSuccess string string network
  | ConnectFailure string

definition walletAddressItem :: string where
  "walletAddressItem = ''healthmint_wallet_address''"

definition walletConnectionItem :: string where
  "walletConnectionItem = ''healthmint_wallet_connection''"

definition lsUpdate :: "(storage \<Rightarrow> storage) \<Rightarrow> wallet_hook \<Rightarrow> wallet_hook" where
  "lsUpdate f s = s\<lparr>localStorage := f (localStorage s)\<rparr>"

definition ssUpdate :: "(storage \<Rightarrow> storage) \<Rightarrow> wallet_hook \<Rightarrow> wallet_hook" where
  "ssUpdate f s = s\<lparr>sessionStorage := f (sessionStorage s)\<rparr>"

text \<open>The \<^verbatim>\<open>catch\<close> block of \<^verbatim>\<open>connectWallet\<close>.\<close>

definition connectFailed :: "js_error \<Rightarrow> wallet_hook \<Rightarrow> connect_result \<times> wallet_hook" where
  "connectFailed e s =
     (let errorMessage =
            (if code e = Some 4001 then ''You rejected the connection request.''
             else if code e = Some (- 32002)
             then ''Connection request already pending. Please check your wallet.''
             else (case errMessage e of
                     None \<Rightarrow> ''Failed to connect wallet''
                   | Some m \<Rightarrow> if m = [] then ''Failed to connect wallet'' else m));
          s1 = s\<lparr>error := Some errorMessage\<rparr>;
          s2 = lsUpdate (removeItem walletAddressItem) s1;
          s3 = lsUpdate (removeItem walletConnectionItem) s2
      in (ConnectFailure errorMessage, s3))"

text \<open>The \<^verbatim>\<open>try\<close> block of \<^verbatim>\<open>connectWallet\<close>, each throw handed to the \<^verbatim>\<open>catch\<close>.\<close>

definition connectAttempt ::
  "wallet_env \<Rightarrow> provider \<Rightarrow> wallet_hook \<Rightarrow> connect_result \<times> wallet_hook" where
  "connectAttempt env p s =
     (let s1 = s\<lparr>isConnecting := True, loading := True, error := None\<rparr>;
          noAccounts = \<lparr>code = None,
                        errMessage = Some ''No accounts found. Please connect your wallet.''\<rparr>
      in case requestAccounts p of
           Inl e \<Rightarrow> connectFailed e s1
         | Inr None \<Rightarrow> connectFailed noAccounts s1
         | Inr (Some []) \<Rightarrow> connectFailed noAccounts s1
         | Inr (Some (connectedAddress # _)) \<Rightarrow>
             (case getNetwork p of
                Inl e \<Rightarrow> connectFailed e s1
              | Inr n \<Rightarrow>
                  (let connectedChainId = ''0x'' @ hexDigits n;
                       networkDetails = getNetworkFromChainId (Some connectedChainId);
                       s2 = lsUpdate (setItem walletAddressItem connectedAddress) s1;
                       s3 = lsUpdate (setItem walletConnectionItem ''true'') s2;
                       s4 = dispatch (UpdateWalletConnection
                              (noFields\<lparr>p_address := Given (Some connectedAddress),
                                        p_chainId := Given connectedChainId,
                                        p_isConnected := Given True,
                                        p_walletType := Given ''metamask'',
                                        p_lastConnected := Given (dateNow env)\<rparr>)) s3;
                       s5 = dispatch (UpdateUserProfile connectedAddress) s4
                   in (ConnectSuccess connectedAddress connectedChainId networkDetails, s5))))"

definition connectWallet :: "wallet_env \<Rightarrow> wallet_hook \<Rightarrow> connect_result \<times> wallet_hook" where
  "connectWallet env s =
     (case ethereum env of
        None \<Rightarrow>
          (let errorMessage = ''Please install MetaMask to continue''
           in (ConnectFailure errorMessage, s\<lparr>error := Some errorMessage\<rparr>))
      | Some p \<Rightarrow>
          (let (r, s1) = connectAttempt env p s
           in (r, if isActive s1 then s1\<lparr>loading := False, isConnecting := False\<rparr> else s1)))"





definition handleChainChanged :: "string \<Rightarrow> wallet_hook \<Rightarrow> wallet_hook" where
  "handleChainChanged c s =
     (if \<not> isActive s then s
      else
        (let networkDetails = getNetworkFromChainId (Some c);
             shownName = (case netName networkDetails of None \<Rightarrow> ''undefined'' | Some n \<Rightarrow> n);
             s1 = dispatch (UpdateWalletConnection
                    (noFields\<lparr>p_chainId := Given c,
                              p_network := Given (Some networkDetails)\<rparr>)) s
         in dispatch (AddNotification
              \<lparr>ntype = (if isSupported networkDetails = Some True then ''info''
                        else ''warning''),
               message = (if isSupported networkDetails = Some True
                          then ''Connected to '' @ shownName
                          else ''Connected to unsupported network: '' @ shownName),
               duration = None\<rparr>) s1))"

text \<open>
  The cleanup of the effect that registers the two handlers sets the flag
  \<^verbatim>\<open>isActive.current\<close> to false. React runs it when the hook unmounts, and before
  it runs the effect again, which it does after a render in which \<^verbatim>\<open>isConnected\<close> or
  \<^verbatim>\<open>address\<close> (two of the effect's dependencies) has changed. The flag starts true
  (\<^verbatim>\<open>useRef(true)\<close>) and nothing sets it to true again.
\<close>

definition effectCleanup :: "wallet_hook \<Rightarrow> wallet_hook" where
  "effectCleanup s = s\<lparr>isActive := False\<rparr>"

definition rendered :: "wallet_hook \<Rightarrow> wallet_hook \<Rightarrow> wallet_hook" where
  "rendered before s =
     (if isConnected (wallet s) \<noteq> isConnected (wallet before)
         \<or> address (wallet s) \<noteq> address (wallet before)
      then effectCleanup s else s)"

section \<open>utils/sanitizers.js\<close>

text \<open>
  JavaScript values. Numbers are of some type \<open>'n\<close>; a date holds its time value
  (\<open>None\<close> for an invalid date); an object is its prototype, when that is not the
  default one (\<open>None\<close>), and the list of its own enumerable properties, in
  order; \<open>JFunction\<close> stands for the values whose \<^verbatim>\<open>typeof\<close> is none of undefined,
  boolean, number, string and object.
\<close>

datatype 'n jsval =
  JUndefined
  | JNull
  | JBool bool
  | JNum 'n
  | JStr string
  | JDate "int option"
  | JArr "'n jsval list"
  | JObj "'n jsval option" "(string \<times> 'n jsval) list"
  | JFunction string

text \<open>
  The built-ins that the sanitizers use: \<^verbatim>\<open>parseFloat\<close>, \<^verbatim>\<open>isNaN\<close>, the number 0,
  the truth value of a number, and the characters that \<^verbatim>\<open>trim()\<close> removes.
\<close>

record 'n js_builtins =
  parseFloat :: "'n jsval \<Rightarrow> 'n"
  isNaN :: "'n \<Rightarrow> bool"
  numZero :: 'n
  numTruthy :: "'n \<Rightarrow> bool"
  whiteSpace :: "char \<Rightarrow> bool"

definition jsTruthy :: "'n js_builtins \<Rightarrow> 'n jsval \<Rightarrow> bool" where
  "jsTruthy ops v =
     (case v of
        JUndefined \<Rightarrow> False
      | JNull \<Rightarrow> False
      | JBool b \<Rightarrow> b
      | JNum n \<Rightarrow> numTruthy ops n
      | JStr x \<Rightarrow> x \<noteq> []
      | _ \<Rightarrow> True)"

definition typeofObject :: "'n jsval \<Rightarrow> bool" where
  "typeofObject v =
     (case v of JNull \<Rightarrow> True | JDate _ \<Rightarrow> True | JArr _ \<Rightarrow> True | JObj _ _ \<Rightarrow> True
      | _ \<Rightarrow> False)"

definition trim :: "'n js_builtins \<Rightarrow> string \<Rightarrow> string" where
  "trim ops x = rev (dropWhile (whiteSpace ops) (rev (dropWhile (whiteSpace ops) x)))"

definition sanitizeString :: "'n js_builtins \<Rightarrow> string \<Rightarrow> string" where
  "sanitizeString ops str =
     (if str = [] then []
      else take 1000 (filter (\<lambda>c. c \<noteq> CHR ''<'' \<and> c \<noteq> CHR ''>'') (trim ops str)))"

definition sanitizeNumber :: "'n js_builtins \<Rightarrow> 'n jsval \<Rightarrow> 'n" where
  "sanitizeNumber ops num =
     (let parsed = parseFloat ops num in if isNaN ops parsed then numZero ops else parsed)"

text \<open>The keys of an array's elements, or of a string's characters: ''0'', ''1'', ...\<close>

definition indexed :: "'a list \<Rightarrow> (string \<times> 'a) list" where
  "indexed xs = zip (map digitsOf [0..<length xs]) xs"

text \<open>
  An assignment \<^verbatim>\<open>sanitized[key] = value\<close> defines an own property, but for the key
  \<^verbatim>\<open>__proto__\<close>: there it sets the prototype of \<^verbatim>\<open>sanitized\<close> when the value is an
  object or \<^verbatim>\<open>null\<close>, and does nothing otherwise. \<open>assigned\<close> is the object that a
  run of such assignments builds from \<^verbatim>\<open>{}\<close>.
\<close>

definition settableAsPrototype :: "'n jsval \<Rightarrow> bool" where
  "settableAsPrototype v =
     (case v of JNull \<Rightarrow> True | JDate _ \<Rightarrow> True | JArr _ \<Rightarrow> True | JObj _ _ \<Rightarrow> True
      | JFunction _ \<Rightarrow> True | _ \<Rightarrow> False)"

definition assigned :: "(string \<times> 'n jsval) list \<Rightarrow> 'n jsval" where
  "assigned ents =
     JObj (case filter (\<lambda>(key, v). key = ''__proto__'' \<and> settableAsPrototype v) ents of
             [] \<Rightarrow> None
           | e # es \<Rightarrow> Some (snd (last (e # es))))
          (filter (\<lambda>(key, v). key \<noteq> ''__proto__'') ents)"

text \<open>
  \<^verbatim>\<open>sanitizeObject\<close>, and \<open>sanitizeValue\<close> for the \<^verbatim>\<open>switch (typeof value)\<close> in its
  loop. \<^verbatim>\<open>Object.entries\<close> of an array are its elements under their indices, and a
  date has none.
\<close>

fun sanitizeObject :: "'n js_builtins \<Rightarrow> 'n jsval \<Rightarrow> 'n jsval"
  and sanitizeValue :: "'n js_builtins \<Rightarrow> 'n jsval \<Rightarrow> 'n jsval" where
  "sanitizeObject ops (JObj pr es) =
     assigned (map (\<lambda>(key, v). (key, sanitizeValue ops v)) es)"
| "sanitizeObject ops (JArr xs) = assigned (indexed (map (sanitizeValue ops) xs))"
| "sanitizeObject ops (JDate d) = JObj None []"
| "sanitizeObject ops JUndefined = JObj None []"
| "sanitizeObject ops JNull = JObj None []"
| "sanitizeObject ops (JBool b) = JObj None []"
| "sanitizeObject ops (JNum n) = JObj None []"
| "sanitizeObject ops (JStr x) = JObj None []"
| "sanitizeObject ops (JFunction f) = JObj None []"
| "sanitizeValue ops (JStr x) = JStr (sanitizeString ops x)"
| "sanitizeValue ops (JNum n) = JNum (sanitizeNumber ops (JNum n))"
| "sanitizeValue ops (JDate d) = JDate d"
| "sanitizeValue ops (JArr xs) =
     JArr (map (\<lambda>item. if typeofObject item then sanitizeObject ops item else item) xs)"
| "sanitizeValue ops (JObj pr es) = sanitizeObject ops (JObj pr es)"
| "sanitizeValue ops JNull = JObj None []"
| "sanitizeValue ops JUndefined = JUndefined"
| "sanitizeValue ops (JBool b) = JBool b"
| "sanitizeValue ops (JFunction f) = JFunction f"

text \<open>
  The own enumerable properties that \<^verbatim>\<open>const { ..., ...sanitized } = data\<close> reads
  from a value that is not \<^verbatim>\<open>null\<close> or \<^verbatim>\<open>undefined\<close>; the rest object has them as
  its own properties, an own \<^verbatim>\<open>__proto__\<close> among them.
\<close>

definition ownProperties :: "'n jsval \<Rightarrow> (string \<times> 'n jsval) list" where
  "ownProperties v =
     (case v of
        JObj pr es \<Rightarrow> es
      | JArr xs \<Rightarrow> indexed xs
      | JStr x \<Rightarrow> indexed (map (\<lambda>c. JStr [c]) x)
      | _ \<Rightarrow> [])"

definition sensitive :: "string list" where
  "sensitive = [''ssn'', ''dateOfBirth'', ''fullName'']"

definition withoutSensitive :: "(string \<times> 'a) list \<Rightarrow> (string \<times> 'a) list" where
  "withoutSensitive es = filter (\<lambda>(key, v). key \<notin> set sensitive) es"

definition sanitizeResponse :: "'n js_builtins \<Rightarrow> 'n jsval \<Rightarrow> 'n jsval" where
  "sanitizeResponse ops data =
     (if \<not> jsTruthy ops data then JNull
      else (let sanitized = JObj None (withoutSensitive (ownProperties data))
            in sanitizeObject ops sanitized))"

text \<open>The own keys of an object.\<close>

definition keysOf :: "'n jsval \<Rightarrow> string list" where
  "keysOf v = (case v of JObj pr es \<Rightarrow> map fst es | _ \<Rightarrow> [])"

text \<open>
  Whether reading \<^verbatim>\<open>v[key]\<close> finds a property: an own one, or one of a prototype
  that was set. (The built-in prototypes have none of the three sensitive keys.)
\<close>

fun readable :: "string \<Rightarrow> 'n jsval \<Rightarrow> bool" where
  "readable key (JObj pr es) =
     (key \<in> set (map fst es) \<or> (case pr of None \<Rightarrow> False | Some p \<Rightarrow> readable key p))"
| "readable key (JArr xs) = (key \<in> set (map digitsOf [0..<length xs]))"
| "readable key v = False"

text \<open>
  Two lists of properties differ only in the three sensitive fields when the
  properties under every other key are the same, in the same order.
\<close>

definition differOnlyInSensitive ::
  "(string \<times> 'a) list \<Rightarrow> (string \<times> 'a) list \<Rightarrow> bool" where
  "differOnlyInSensitive es1 es2 =
     (filter (\<lambda>e. fst e \<notin> {''ssn'', ''dateOfBirth'', ''fullName''}) es1
        = filter (\<lambda>e. fst e \<notin> {''ssn'', ''dateOfBirth'', ''fullName''}) es2)"

section \<open>Sample surroundings and states\<close>

definition sampleDates :: "(int \<times> string) list" where
  "sampleDates =
     [(0, ''1970-01-01T00:00:00.000Z''),
      (1000, ''1970-01-01T00:00:01.000Z''),
      (86401000, ''1970-01-02T00:00:01.000Z''),
      (172801000, ''1970-01-03T00:00:01.000Z'')]"

text \<open>
  One second after the epoch, profiles kept as their JSON text, an audit sink
  that takes every event and a store that takes every write.
\<close>

definition sampleEnv :: "string auth_env" where
  "sampleEnv =
     \<lparr>now = 1000,
      toISOString = (\<lambda>t. case map_of sampleDates t of
                            None \<Rightarrow> ''1970-01-01T00:00:00.000Z'' | Some x \<Rightarrow> x),
      parseDate = map_of (map (\<lambda>(t, x). (x, t)) sampleDates),
      jsonParse = (\<lambda>x. Parsed (Some x)),
      jsonStringify = (\<lambda>p. p),
      profileTruthy = (\<lambda>p. True),
      profileAddress = (\<lambda>p. None),
      auditAccepts = (\<lambda>t. True),
      storageRejects = (\<lambda>k. False),
      storageError = ''The quota has been exceeded.''\<rparr>"

text \<open>The same, with an audit sink to which no event can be delivered.\<close>

definition undeliveredEnv :: "string auth_env" where
  "undeliveredEnv = sampleEnv\<lparr>auditAccepts := (\<lambda>t. False)\<rparr>"

text \<open>The same, a day later: the instant at which a token issued at 1000 expires.\<close>

definition laterEnv :: "string auth_env" where
  "laterEnv = sampleEnv\<lparr>now := 86401000\<rparr>"

text \<open>
  A store so full that the write of the expiry throws; and, a day later, a store
  so full that every write throws.
\<close>

definition expiryRejectedEnv :: "string auth_env" where
  "expiryRejectedEnv = sampleEnv\<lparr>storageRejects := (\<lambda>k. k = ''healthmint_token_expiry'')\<rparr>"

definition fullStoreEnv :: "string auth_env" where
  "fullStoreEnv = laterEnv\<lparr>storageRejects := (\<lambda>k. True)\<rparr>"

definition freshService :: "string auth_service" where
  "freshService =
     \<lparr>localStorage = Map.empty, sessionStorage = Map.empty, auditLog = [],
      token = None, refreshToken = None, tokenExpiry = None, userProfile = None,
      walletAddress = None, isNewUserFlag = False\<rparr>"

text \<open>The service after a first login of the wallet 0xabc.\<close>

definition loggedInService :: "string auth_service" where
  "loggedInService = snd (login sampleEnv (Some ''0xabc'') freshService)"

text \<open>
  A provider that answers the one account 0xABC on chain 1, one that rejects the
  request as the user would, and no provider at all. A hook just mounted; the
  hook after connecting to the first provider and the render that follows; and a
  hook just mounted after a reload, over the store that the connection left.
\<close>

definition upperProvider :: provider where
  "upperProvider =
     \<lparr>requestAccounts = Inr (Some [''0xABC'']), getNetwork = Inr 1,
      hasDisconnect = False, disconnectRejects = False, isMetaMask = True\<rparr>"

definition upperEnv :: wallet_env where
  "upperEnv = \<lparr>ethereum = Some upperProvider, dateNow = 1000\<rparr>"

definition rejectedEnv :: wallet_env where
  "rejectedEnv =
     \<lparr>ethereum = Some (upperProvider\<lparr>requestAccounts :=
         Inl \<lparr>code = Some 4001, errMessage = Some ''User rejected the request.''\<rparr>\<rparr>),
      dateNow = 2000\<rparr>"

definition noProviderEnv :: wallet_env where
  "noProviderEnv = \<lparr>ethereum = None, dateNow = 2000\<rparr>"

definition freshHook :: wallet_hook where
  "freshHook =
     \<lparr>localStorage = Map.empty, sessionStorage = Map.empty, auditLog = [],
      wallet = clearedWallet, userAddress = None, notifications = [],
      loading = False, error = None, isConnecting = False, isInitialized = True,
      isActive = True\<rparr>"

definition connectedHook :: wallet_hook where
  "connectedHook = rendered freshHook (snd (connectWallet upperEnv freshHook))"




text \<open>
  Numbers as integers and the white space of ASCII; two patient records that
  differ in the sensitive fields only, each with a contact that has a number of
  its own; and a record as \<^verbatim>\<open>JSON.parse\<close> reads
  \<^verbatim>\<open>{"__proto__": {"ssn": "123-45-6789"}}\<close>.
\<close>

definition sampleOps :: "int js_builtins" where
  "sampleOps =
     \<lparr>parseFloat = (\<lambda>v. case v of JNum n \<Rightarrow> n | _ \<Rightarrow> 0),
      isNaN = (\<lambda>n. False),
      numZero = 0,
      numTruthy = (\<lambda>n. n \<noteq> 0),
      whiteSpace = (\<lambda>c. c \<in> set [CHR 0x09, CHR 0x0A, CHR 0x0B, CHR 0x0C, CHR 0x0D,
                                   CHR '' ''])\<rparr>"

definition patientA :: "(string \<times> int jsval) list" where
  "patientA =
     [(''name'', JStr '' Ann <b>''), (''ssn'', JStr ''123-45-6789''), (''age'', JNum 41),
      (''contact'', JObj None [(''ssn'', JStr ''987-65-4321'')])]"

definition patientB :: "(string \<times> int jsval) list" where
  "patientB =
     [(''dateOfBirth'', JDate (Some 0)), (''name'', JStr '' Ann <b>''), (''age'', JNum 41),
      (''fullName'', JStr ''Ann Lee''),
      (''contact'', JObj None [(''ssn'', JStr ''987-65-4321'')])]"

definition inheritedRecord :: "int jsval" where
  "inheritedRecord = JObj None [(''__proto__'', JObj None [(''ssn'', JStr ''123-45-6789'')])]"

section \<open>Properties of the session service\<close>

lemmas keys_defs = tokenKey_def refreshTokenKey_def tokenExpiryKey_def userProfileKey_def
  walletAddressKey_def isNewUserKey_def

lemmas storage_defs = getItem_def setItem_def removeItem_def writeIf_def

lemmas login_defs = login_def loginWith_def loginByApi_def loginFailed_def orElse_def
  truthy_def createAuditLog_def isAuthenticated_def performApiLogin_def getUserByWallet_def
  parseStored_def updateAuthState_def profileOrNull_def numberToString_def digitsOf.simps

lemmas sample_defs = sampleEnv_def undeliveredEnv_def laterEnv_def expiryRejectedEnv_def
  fullStoreEnv_def freshService_def sampleDates_def

subsection \<open>What the steps of the service leave of the credential\<close>

lemma audit_fields [simp]:
  "token (createAuditLog env ev s) = token s"
  "refreshToken (createAuditLog env ev s) = refreshToken s"
  "tokenExpiry (createAuditLog env ev s) = tokenExpiry s"
  "userProfile (createAuditLog env ev s) = userProfile s"
  "walletAddress (createAuditLog env ev s) = walletAddress s"
  "localStorage (createAuditLog env ev s) = localStorage s"
  by (simp_all add: createAuditLog_def)

lemma audit_authenticated [simp]:
  "isAuthenticated env' (createAuditLog env ev s) = isAuthenticated env' s"
  by (simp add: isAuthenticated_def)

lemma failed_fields [simp]:
  "token (snd (loginFailed env c m s)) = token s"
  "tokenExpiry (snd (loginFailed env c m s)) = tokenExpiry s"
  "localStorage (snd (loginFailed env c m s)) = localStorage s"
  "fst (loginFailed env c m s) = LoginFailure (if m = [] then ''Authentication failed'' else m)"
  by (simp_all add: loginFailed_def)

text \<open>A run of writes leaves every key that it does not write.\<close>

lemma setItems_other:
  "k \<notin> fst ` set kvs \<Longrightarrow> getItem (snd (setItems env kvs st)) k = getItem st k"
  by (induction kvs arbitrary: st) (auto simp: getItem_def setItem_def)

text \<open>In a store that takes every write, a run of writes makes them all.\<close>

lemma setItems_accepted:
  "\<forall>k. \<not> storageRejects env k \<Longrightarrow>
     setItems env kvs st = (True, fold (\<lambda>(k, v). setItem k v) kvs st)"
  by (induction kvs arbitrary: st) auto

lemma user_fields [simp]:
  "token (snd (getUserByWallet env wa s)) = token s"
  "tokenExpiry (snd (getUserByWallet env wa s)) = tokenExpiry s"
  by (simp_all add: getUserByWallet_def Let_def split: parsed.splits option.splits)

lemma user_store:
  "getItem (localStorage (snd (getUserByWallet env wa s))) tokenKey
     = getItem (localStorage s) tokenKey
   \<and> getItem (localStorage (snd (getUserByWallet env wa s))) tokenExpiryKey
     = getItem (localStorage s) tokenExpiryKey"
  by (simp add: getUserByWallet_def Let_def getItem_def setItem_def keys_defs
      split: parsed.splits option.splits)

lemma api_fields:
  "ad_token (fst (performApiLogin env wa s))
     = Some (''demo_token_'' @ numberToString (now env))
   \<and> ad_expiresAt (fst (performApiLogin env wa s))
     = Some (toISOString env (now env + 24 * 60 * 60 * 1000))"
  by (simp add: performApiLogin_def Let_def split: prod.splits)

lemma update_fields [simp]:
  "token (snd (updateAuthState env d s)) = ad_token d"
  "tokenExpiry (snd (updateAuthState env d s)) = ad_expiresAt d"
  by (simp_all add: updateAuthState_def Let_def split: prod.splits)

lemma loginByApi_issued: "issued env (snd (loginByApi env c wa s))"
  using api_fields [of env wa s]
  by (simp add: loginByApi_def issued_def Let_def split_beta)

lemma loginWith_fields:
  "(token (snd (loginWith env c wa s)) = token s
      \<and> tokenExpiry (snd (loginWith env c wa s)) = tokenExpiry s
      \<and> ((\<exists>m. fst (loginWith env c wa s) = LoginFailure m) \<or> isAuthenticated env s))
   \<or> issued env (snd (loginWith env c wa s))"
proof -
  have auth: "\<And>ls. isAuthenticated env (s\<lparr>walletAddress := Some wa, localStorage := ls\<rparr>)
      = isAuthenticated env s"
    by (simp add: isAuthenticated_def)
  show ?thesis
    using loginByApi_issued [of env c wa]
    by (simp add: loginWith_def Let_def split_beta auth del: setItems.simps)
qed

lemma login_fields:
  "(token (snd (login env c s)) = token s
      \<and> tokenExpiry (snd (login env c s)) = tokenExpiry s
      \<and> ((\<exists>m. fst (login env c s) = LoginFailure m) \<or> isAuthenticated env s))
   \<or> issued env (snd (login env c s))"
  using loginWith_fields [of env c _ s]
  by (simp add: login_def split: option.splits)


lemma authenticated_fields:
  "token s' = token s \<Longrightarrow> tokenExpiry s' = tokenExpiry s \<Longrightarrow>
     isAuthenticated env s' = isAuthenticated env s"
  by (simp add: isAuthenticated_def)

lemma authenticated_iff:
  "isAuthenticated env s
     = (truthy (token s) \<and> (\<forall>u. expiryInstant env s = Some u \<longrightarrow> now env < u))"
  by (auto simp: isAuthenticated_def expiryInstant_def split: option.splits)

lemma verifyToken_isAuthenticated: "verifyToken env s = isAuthenticated env s"
  by (simp add: verifyToken_def isAuthenticated_def)

lemma issued_authenticated:
  assumes "parseDate env (toISOString env (now env + 24 * 60 * 60 * 1000))
             = Some (now env + 24 * 60 * 60 * 1000)"
    and "issued env s"
  shows "isAuthenticated env s"
  using assms by (simp add: issued_def isAuthenticated_def truthy_def)

lemma refresh_without_token:
  "\<not> truthy (refreshToken s) \<Longrightarrow> refreshAuthToken env s = (False, s)"
  by (simp add: refreshAuthToken_def)

lemma refresh_issued:
  "truthy (refreshToken s) \<Longrightarrow>
     issued env (snd (refreshAuthToken env s))
     \<and> refreshToken (snd (refreshAuthToken env s))
         = Some (''demo_refresh_'' @ numberToString (now env))"
  by (simp add: refreshAuthToken_def issued_def Let_def split_beta del: setItems.simps)

lemma valid_iff:
  "(truthy (token s)
      \<and> \<not> (case expiryInstant env s of None \<Rightarrow> False | Some t \<Rightarrow> t \<le> now env))
     = isAuthenticated env s"
  by (auto simp: isAuthenticated_def expiryInstant_def split: option.splits)

lemma ensureValidToken_unfold:
  "ensureValidToken env s =
     (if isAuthenticated env s then Inr s
      else if fst (refreshAuthToken env s) then Inr (snd (refreshAuthToken env s))
      else if \<not> truthy (walletAddress (snd (refreshAuthToken env s)))
      then Inl AuthenticationRequired
      else (case fst (login env None (snd (refreshAuthToken env s))) of
              LoginSuccess a b p \<Rightarrow> Inr (snd (login env None (snd (refreshAuthToken env s))))
            | LoginFailure msg \<Rightarrow> Inl (LoginRejected msg)))"
  unfolding ensureValidToken_def valid_iff
  by (cases "refreshAuthToken env s"; cases "login env None (snd (refreshAuthToken env s))")
     (auto split: login_result.splits)

lemma ensureValidToken_authenticated:
  assumes rt: "parseDate env (toISOString env (now env + 24 * 60 * 60 * 1000))
             = Some (now env + 24 * 60 * 60 * 1000)"
    and ok: "ensureValidToken env s = Inr s'"
  shows "isAuthenticated env s'"
proof (cases "isAuthenticated env s")
  case True
  with ok show ?thesis by (simp add: ensureValidToken_unfold)
next
  case False
  note invalid = this
  let ?s1 = "snd (refreshAuthToken env s)"
  have s1: "isAuthenticated env ?s1 \<or> ?s1 = s"
    using refresh_without_token [of s env] refresh_issued [of s env]
      issued_authenticated [OF rt, of ?s1]
    by (cases "truthy (refreshToken s)") auto
  show ?thesis
  proof (cases "fst (refreshAuthToken env s)")
    case True
    then have "truthy (refreshToken s)"
      by (cases "truthy (refreshToken s)") (simp_all add: refresh_without_token)
    moreover from True ok invalid have "s' = ?s1" by (simp add: ensureValidToken_unfold)
    ultimately show ?thesis
      using refresh_issued [of s env] issued_authenticated [OF rt] by blast
  next
    case False
    let ?l = "login env None ?s1"
    from ok invalid False have r: "(\<forall>m. fst ?l \<noteq> LoginFailure m) \<and> snd ?l = s'"
      by (cases "fst ?l") (simp_all add: ensureValidToken_unfold split: if_splits)
    from login_fields [of env None ?s1] show ?thesis
    proof
      assume a: "token (snd ?l) = token ?s1 \<and> tokenExpiry (snd ?l) = tokenExpiry ?s1
          \<and> ((\<exists>m. fst ?l = LoginFailure m) \<or> isAuthenticated env ?s1)"
      with r have "isAuthenticated env ?s1" by blast
      with a r authenticated_fields [of s' ?s1 env] show ?thesis by simp
    next
      assume "issued env (snd ?l)"
      with r issued_authenticated [OF rt] show ?thesis by simp
    qed
  qed
qed

text \<open>
  C5. The expiry rule is closed at the instant: a credential whose expiry instant is
  at or before now is not authenticated, for \<^verbatim>\<open>isAuthenticated\<close> and for
  \<^verbatim>\<open>verifyToken\<close>. And \<open>ensureValidToken\<close>, when it answers with a credential,
  answers with a token whose expiry instant, if it has one, is after now. The
  second part is about \<^verbatim>\<open>Date\<close> reading back the expiry it printed for now plus
  24 hours.
\<close>

theorem expired_credential_rejected:
  "(expiryInstant env s = Some t \<and> t \<le> now env \<longrightarrow>
      \<not> isAuthenticated env s \<and> \<not> verifyToken env s)
   \<and> (parseDate env (toISOString env (now env + 24 * 60 * 60 * 1000))
         = Some (now env + 24 * 60 * 60 * 1000)
       \<and> ensureValidToken env s = Inr s' \<longrightarrow>
         truthy (token s') \<and> (\<forall>u. expiryInstant env s' = Some u \<longrightarrow> now env < u))"
proof (intro conjI impI)
  assume h: "expiryInstant env s = Some t \<and> t \<le> now env"
  then have "\<not> isAuthenticated env s" unfolding authenticated_iff by auto
  then show "\<not> isAuthenticated env s" "\<not> verifyToken env s"
    by (simp_all add: verifyToken_isAuthenticated)
next
  assume h: "parseDate env (toISOString env (now env + 24 * 60 * 60 * 1000))
         = Some (now env + 24 * 60 * 60 * 1000)
       \<and> ensureValidToken env s = Inr s'"
  then have "isAuthenticated env s'"
    using ensureValidToken_authenticated by blast
  then show "truthy (token s')" "\<forall>u. expiryInstant env s' = Some u \<longrightarrow> now env < u"
    unfolding authenticated_iff by simp_all
qed


subsection \<open>Token and expiry together\<close>

lemma issued_held: "issued env s \<Longrightarrow> heldTogether s"
  by (simp add: issued_def heldTogether_def)

lemma login_held: "heldTogether s \<Longrightarrow> heldTogether (snd (login env c s))"
  using login_fields [of env c s] issued_held [of env "snd (login env c s)"]
  by (auto simp: heldTogether_def)

lemma refresh_held: "heldTogether s \<Longrightarrow> heldTogether (snd (refreshAuthToken env s))"
  using refresh_without_token [of s env] refresh_issued [of s env]
    issued_held [of env "snd (refreshAuthToken env s)"]
  by (cases "truthy (refreshToken s)") auto

lemma load_setTogether:
  "storedTogether (localStorage s) \<Longrightarrow> setTogether (snd (loadAuthState env s))"
  by (simp add: loadAuthState_def setTogether_def heldTogether_def storedTogether_def Let_def
      getItem_def split: option.splits parsed.splits)

lemma logout_setTogether: "setTogether (snd (logout env s))"
  by (simp add: logout_def setTogether_def heldTogether_def storedTogether_def Let_def
      storage_defs keys_defs)

lemma update_stored:
  assumes "\<forall>k. \<not> storageRejects env k" and "truthy (ad_token d)" and "truthy (ad_expiresAt d)"
  shows "storedTogether (localStorage (snd (updateAuthState env d s)))"
  using assms
  by (auto simp: updateAuthState_def setItems_accepted storedTogether_def truthy_def Let_def
      storage_defs keys_defs split: option.splits)

lemma refresh_stored:
  assumes "\<forall>k. \<not> storageRejects env k" and "storedTogether (localStorage s)"
  shows "storedTogether (localStorage (snd (refreshAuthToken env s)))"
  using assms
  by (simp add: refreshAuthToken_def setItems_accepted storedTogether_def Let_def
      storage_defs keys_defs)

lemma loginByApi_stored:
  assumes "\<forall>k. \<not> storageRejects env k"
    and "toISOString env (now env + 24 * 60 * 60 * 1000) \<noteq> []"
  shows "storedTogether (localStorage (snd (loginByApi env c wa s)))"
proof -
  let ?d = "fst (performApiLogin env wa s)"
  have "truthy (ad_token ?d)" "truthy (ad_expiresAt ?d)"
    using assms(2) api_fields [of env wa s] by (simp_all add: truthy_def)
  from update_stored [OF assms(1) this, of "snd (performApiLogin env wa s)"]
  show ?thesis
    by (simp add: loginByApi_def Let_def split_beta)
qed

lemma loginWith_stored:
  assumes "\<forall>k. \<not> storageRejects env k"
    and "toISOString env (now env + 24 * 60 * 60 * 1000) \<noteq> []"
    and "storedTogether (localStorage s)"
  shows "storedTogether (localStorage (snd (loginWith env c wa s)))"
  using assms(3) loginByApi_stored [OF assms(1,2), of c wa]
  by (simp add: loginWith_def Let_def split_beta setItems_accepted [OF assms(1)]
        storedTogether_def getItem_def setItem_def keys_defs)

lemma login_stored:
  assumes "\<forall>k. \<not> storageRejects env k"
    and "toISOString env (now env + 24 * 60 * 60 * 1000) \<noteq> []"
    and "storedTogether (localStorage s)"
  shows "storedTogether (localStorage (snd (login env c s)))"
  using assms(3) loginWith_stored [OF assms, of c]
  by (simp add: login_def split: option.splits)

text \<open>
  C7, as the code has it. Token and expiry are kept together where they were
  together: loading from a store that has the two keys together gives a service
  that has them together; login and refresh keep them together in the service's
  fields, and in the store too when no write throws (and \<^verbatim>\<open>toISOString\<close> does not
  print the empty string); logout leaves neither, in the fields and in the store.
\<close>

theorem token_and_expiry_kept_together:
  "(storedTogether (localStorage s) \<longrightarrow> setTogether (snd (loadAuthState env s)))
   \<and> (heldTogether s \<longrightarrow>
        heldTogether (snd (login env c s)) \<and> heldTogether (snd (refreshAuthToken env s)))
   \<and> setTogether (snd (logout env s))
   \<and> (setTogether s \<and> (\<forall>k. \<not> storageRejects env k)
        \<and> toISOString env (now env + 24 * 60 * 60 * 1000) \<noteq> [] \<longrightarrow>
        setTogether (snd (login env c s)) \<and> setTogether (snd (refreshAuthToken env s)))"
  using load_setTogether [of s env] login_held [of s env c] refresh_held [of s env]
    logout_setTogether [of env s] login_stored [of env s c] refresh_stored [of env s]
  by (auto simp: setTogether_def)


subsection \<open>The sample service\<close>

lemma loggedInService_fields:
  "token loggedInService = Some ''demo_token_1000''
   \<and> refreshToken loggedInService = Some ''demo_refresh_1000''
   \<and> tokenExpiry loggedInService = Some ''1970-01-02T00:00:01.000Z''
   \<and> getItem (localStorage loggedInService) tokenKey = Some ''demo_token_1000''
   \<and> getItem (localStorage loggedInService) tokenExpiryKey = Some ''1970-01-02T00:00:01.000Z''"
  by (simp add: loggedInService_def login_defs sample_defs storage_defs keys_defs
      Let_def split_beta)

lemma loggedInService_together: "setTogether loggedInService"
  by (simp add: setTogether_def heldTogether_def storedTogether_def loggedInService_fields)

theorem expired_credential_rejected_witness:
  "expiryInstant laterEnv loggedInService = Some 86401000
   \<and> (86401000 :: int) \<le> now laterEnv
   \<and> \<not> isAuthenticated laterEnv loggedInService
   \<and> \<not> verifyToken laterEnv loggedInService
   \<and> parseDate laterEnv (toISOString laterEnv (now laterEnv + 24 * 60 * 60 * 1000))
        = Some (now laterEnv + 24 * 60 * 60 * 1000)
   \<and> ensureValidToken laterEnv loggedInService
        = Inr (snd (refreshAuthToken laterEnv loggedInService))
   \<and> truthy (token (snd (refreshAuthToken laterEnv loggedInService)))
   \<and> expiryInstant laterEnv (snd (refreshAuthToken laterEnv loggedInService))
        = Some 172801000
   \<and> now laterEnv < 172801000"
proof -
  have a: "expiryInstant laterEnv loggedInService = Some 86401000"
    by (simp add: expiryInstant_def loggedInService_fields sample_defs)
  have b: "(86401000 :: int) \<le> now laterEnv"
    by (simp add: sample_defs)
  have c: "parseDate laterEnv (toISOString laterEnv (now laterEnv + 24 * 60 * 60 * 1000))
        = Some (now laterEnv + 24 * 60 * 60 * 1000)"
    by (simp add: sample_defs)
  have r: "fst (refreshAuthToken laterEnv loggedInService)"
    by (simp add: refreshAuthToken_def truthy_def loggedInService_fields Let_def split_beta
        sample_defs)
  have d: "ensureValidToken laterEnv loggedInService
        = Inr (snd (refreshAuthToken laterEnv loggedInService))"
    using a b r by (simp add: ensureValidToken_unfold authenticated_iff)
  have e: "expiryInstant laterEnv (snd (refreshAuthToken laterEnv loggedInService))
        = Some 172801000"
    by (simp add: expiryInstant_def refreshAuthToken_def truthy_def loggedInService_fields
        Let_def split_beta sample_defs del: setItems.simps)
  from expired_credential_rejected
         [of laterEnv loggedInService 86401000 "snd (refreshAuthToken laterEnv loggedInService)"]
       a b c d e
  show ?thesis by (simp add: sample_defs)
qed

theorem token_and_expiry_kept_together_witness:
  "storedTogether (localStorage loggedInService)
   \<and> heldTogether loggedInService
   \<and> setTogether loggedInService
   \<and> (\<forall>k. \<not> storageRejects sampleEnv k)
   \<and> toISOString sampleEnv (now sampleEnv + 24 * 60 * 60 * 1000) \<noteq> []
   \<and> setTogether (snd (loadAuthState sampleEnv loggedInService))
   \<and> heldTogether (snd (login fullStoreEnv None loggedInService))
   \<and> heldTogether (snd (refreshAuthToken fullStoreEnv loggedInService))
   \<and> setTogether (snd (logout sampleEnv loggedInService))
   \<and> setTogether (snd (login sampleEnv None loggedInService))
   \<and> setTogether (snd (refreshAuthToken sampleEnv loggedInService))"
proof -
  have a: "setTogether loggedInService" by (rule loggedInService_together)
  have b: "\<forall>k. \<not> storageRejects sampleEnv k"
    "toISOString sampleEnv (now sampleEnv + 24 * 60 * 60 * 1000) \<noteq> []"
    by (simp_all add: sample_defs)
  from token_and_expiry_kept_together [of loggedInService sampleEnv None]
    token_and_expiry_kept_together [of loggedInService fullStoreEnv None] a b
  show ?thesis by (simp add: setTogether_def)
qed

text \<open>
  C7, as stated, fails: from a service that holds nothing, a login during which
  the write of the expiry throws leaves the token in the store without its expiry.
\<close>

theorem token_without_expiry_counterexample:
  "setTogether freshService
   \<and> \<not> setTogether (snd (login expiryRejectedEnv (Some ''0xabc'') freshService))"
  by (simp add: setTogether_def heldTogether_def storedTogether_def login_defs sample_defs
      storage_defs keys_defs Let_def split_beta)

text \<open>
  C3, as the code has it. A refresh that fails has cleared nothing. Either no
  refresh token was held, and the service is exactly what it was, fields and
  store; or a write threw, and the token, the refresh token and the expiry are
  all three set in the fields, to the values just issued.
\<close>

theorem refresh_failure_clears_nothing:
  "fst (refreshAuthToken env s) = False \<Longrightarrow>
     (\<not> truthy (refreshToken s) \<and> snd (refreshAuthToken env s) = s)
     \<or> (truthy (refreshToken s)
         \<and> token (snd (refreshAuthToken env s))
             = Some (''demo_token_'' @ numberToString (now env))
         \<and> refreshToken (snd (refreshAuthToken env s))
             = Some (''demo_refresh_'' @ numberToString (now env))
         \<and> tokenExpiry (snd (refreshAuthToken env s))
             = Some (toISOString env (now env + 24 * 60 * 60 * 1000)))"
  using refresh_without_token [of s env] refresh_issued [of s env]
  by (cases "truthy (refreshToken s)") (simp_all add: issued_def)

theorem refresh_failure_clears_nothing_witness:
  "fst (refreshAuthToken fullStoreEnv loggedInService) = False
   \<and> truthy (refreshToken loggedInService)
   \<and> token (snd (refreshAuthToken fullStoreEnv loggedInService))
       = Some ''demo_token_86401000''
   \<and> refreshToken (snd (refreshAuthToken fullStoreEnv loggedInService))
       = Some ''demo_refresh_86401000''
   \<and> tokenExpiry (snd (refreshAuthToken fullStoreEnv loggedInService))
       = Some ''1970-01-03T00:00:01.000Z''"
proof -
  have a: "fst (refreshAuthToken fullStoreEnv loggedInService) = False"
    by (simp add: refreshAuthToken_def truthy_def loggedInService_fields Let_def split_beta
        sample_defs keys_defs)
  have b: "truthy (refreshToken loggedInService)"
    by (simp add: truthy_def loggedInService_fields)
  from refresh_failure_clears_nothing [OF a] a b
  show ?thesis by (simp add: sample_defs numberToString_def digitsOf.simps)
qed

text \<open>
  C3, as stated, fails: after a login, a refresh whose writes throw answers
  \<^verbatim>\<open>false\<close> and the service holds a token, a refresh token and an expiry.
\<close>

theorem refresh_failure_counterexample:
  "\<not> (fst (refreshAuthToken fullStoreEnv loggedInService) = False \<longrightarrow>
        token (snd (refreshAuthToken fullStoreEnv loggedInService)) = None
        \<and> refreshToken (snd (refreshAuthToken fullStoreEnv loggedInService)) = None
        \<and> tokenExpiry (snd (refreshAuthToken fullStoreEnv loggedInService)) = None)"
  by (simp add: refreshAuthToken_def truthy_def loggedInService_fields Let_def split_beta
      sample_defs keys_defs)

text \<open>
  C4. From every state, whether or not the logout event reaches the audit sink,
  \<^verbatim>\<open>logout\<close> answers \<^verbatim>\<open>true\<close> with the token, the refresh token and the expiry
  unset, and \<^verbatim>\<open>isAuthenticated\<close> is false right after, at any time.
\<close>

theorem logout_then_isAuthenticated:
  "fst (logout env s)
   \<and> \<not> isAuthenticated env' (snd (logout env s))
   \<and> token (snd (logout env s)) = None
   \<and> refreshToken (snd (logout env s)) = None
   \<and> tokenExpiry (snd (logout env s)) = None"
  by (simp add: logout_def Let_def isAuthenticated_def truthy_def)

theorem logout_then_isAuthenticated_witness:
  "isAuthenticated sampleEnv loggedInService
   \<and> \<not> auditAccepts undeliveredEnv ''AUTH_LOGOUT''
   \<and> fst (logout undeliveredEnv loggedInService)
   \<and> \<not> isAuthenticated sampleEnv (snd (logout undeliveredEnv loggedInService))"
proof -
  have a: "isAuthenticated sampleEnv loggedInService"
    by (simp add: isAuthenticated_def truthy_def loggedInService_fields sample_defs)
  from logout_then_isAuthenticated [of undeliveredEnv loggedInService sampleEnv] a
  show ?thesis by (simp add: sample_defs)
qed

section \<open>Properties of the wallet hook\<close>

lemmas wallet_defs = connectWallet_def connectAttempt_def connectFailed_def dispatch_def
  lsUpdate_def ssUpdate_def mergePayload_def given_def noFields_def clearedWallet_def
  walletAddressItem_def walletConnectionItem_def getItem_def setItem_def removeItem_def

lemmas wallet_sample_defs = upperProvider_def upperEnv_def rejectedEnv_def noProviderEnv_def
  freshHook_def

lemma connectedHook_fields:
  "wallet connectedHook
     = \<lparr>address = Some ''0xabc'', chainId = Some ''0x1'', isConnected = True,
        walletNetwork = None, walletType = Some ''metamask'', lastConnected = Some 1000\<rparr>
   \<and> getItem (localStorage connectedHook) walletAddressItem = Some ''0xABC''
   \<and> getItem (localStorage connectedHook) walletConnectionItem = Some ''true''
   \<and> \<not> isActive connectedHook \<and> auditLog connectedHook = []
   \<and> notifications connectedHook = []
   \<and> fst (connectWallet upperEnv freshHook)
       = ConnectSuccess ''0xABC'' ''0x1'' (getNetworkFromChainId (Some ''0x1''))"
  by (simp add: connectedHook_def rendered_def effectCleanup_def wallet_defs wallet_sample_defs
      Let_def hexDigits.simps toLowerCase_def lowerChar_def)

text \<open>
  C1, as the code has it. When \<^verbatim>\<open>connectWallet\<close> succeeds with the provider
  answering the accounts \<open>a # rest\<close>, the wallet is connected with the address
  lowercased, and the store holds \<open>a\<close> itself, exactly as the provider gave it,
  under the address key, and ''true'' under the connection key.
\<close>

theorem connect_stores_provider_address:
  "ethereum env = Some p \<Longrightarrow> requestAccounts p = Inr (Some (a # rest)) \<Longrightarrow>
   fst (connectWallet env s) = ConnectSuccess a' c n \<Longrightarrow>
     a' = a
     \<and> address (wallet (snd (connectWallet env s))) = Some (toLowerCase a)
     \<and> chainId (wallet (snd (connectWallet env s))) = Some c
     \<and> isConnected (wallet (snd (connectWallet env s)))
     \<and> getItem (localStorage (snd (connectWallet env s))) walletAddressItem = Some a
     \<and> getItem (localStorage (snd (connectWallet env s))) walletConnectionItem = Some ''true''"
  by (auto simp: wallet_defs Let_def split: sum.splits if_splits)

theorem connect_stores_provider_address_witness:
  "ethereum upperEnv = Some upperProvider
   \<and> requestAccounts upperProvider = Inr (Some [''0xABC''])
   \<and> fst (connectWallet upperEnv freshHook)
       = ConnectSuccess ''0xABC'' ''0x1'' (getNetworkFromChainId (Some ''0x1''))
   \<and> address (wallet (snd (connectWallet upperEnv freshHook))) = Some ''0xabc''
   \<and> getItem (localStorage (snd (connectWallet upperEnv freshHook))) walletAddressItem
       = Some ''0xABC''"
proof -
  have a: "ethereum upperEnv = Some upperProvider" by (simp add: upperEnv_def)
  have b: "requestAccounts upperProvider = Inr (Some [''0xABC''])"
    by (simp add: upperProvider_def)
  have c: "fst (connectWallet upperEnv freshHook)
       = ConnectSuccess ''0xABC'' ''0x1'' (getNetworkFromChainId (Some ''0x1''))"
    by (simp add: connectedHook_fields)
  from connect_stores_provider_address [OF a b c] a b c
  show ?thesis by (simp add: toLowerCase_def lowerChar_def)
qed

text \<open>
  C1, as stated, fails: with the provider answering the one account 0xABC, the
  connection succeeds and the store holds 0xABC, not its lower-case form 0xabc.
\<close>

theorem connect_lowercase_counterexample:
  "\<not> (fst (connectWallet upperEnv freshHook)
         = ConnectSuccess ''0xABC'' ''0x1'' (getNetworkFromChainId (Some ''0x1'')) \<longrightarrow>
       getItem (localStorage (snd (connectWallet upperEnv freshHook))) walletAddressItem
         = Some (toLowerCase ''0xABC''))"
  by (simp add: wallet_defs wallet_sample_defs Let_def hexDigits.simps toLowerCase_def
      lowerChar_def)




text \<open>
  C6. Without a provider \<^verbatim>\<open>connectWallet\<close> fails with the message that asks for
  one to be installed, and the local and the session store are what they were.
\<close>

theorem connect_without_provider:
  "ethereum env = None \<Longrightarrow>
     fst (connectWallet env s) = ConnectFailure ''Please install MetaMask to continue''
     \<and> localStorage (snd (connectWallet env s)) = localStorage s
     \<and> sessionStorage (snd (connectWallet env s)) = sessionStorage s"
  by (simp add: connectWallet_def Let_def)

theorem connect_without_provider_witness:
  "ethereum noProviderEnv = None
   \<and> fst (connectWallet noProviderEnv connectedHook)
       = ConnectFailure ''Please install MetaMask to continue''
   \<and> getItem (localStorage (snd (connectWallet noProviderEnv connectedHook))) walletAddressItem
       = Some ''0xABC''
   \<and> getItem (localStorage (snd (connectWallet noProviderEnv connectedHook)))
        walletConnectionItem = Some ''true''"
proof -
  have a: "ethereum noProviderEnv = None" by (simp add: noProviderEnv_def)
  from connect_without_provider [OF a, of connectedHook] a connectedHook_fields
  show ?thesis by simp
qed

lemma connectFailed_clears:
  "connectFailed e s = (r, s') \<Longrightarrow>
     getItem (localStorage s') walletAddressItem = None
     \<and> getItem (localStorage s') walletConnectionItem = None"
  by (auto simp: connectFailed_def lsUpdate_def getItem_def removeItem_def Let_def)

lemma connectAttempt_failure_clears:
  "connectAttempt env p s = (ConnectFailure m, s1) \<Longrightarrow>
     getItem (localStorage s1) walletAddressItem = None
     \<and> getItem (localStorage s1) walletConnectionItem = None"
  by (auto simp: connectAttempt_def Let_def
      split: sum.splits option.splits list.splits dest: connectFailed_clears)

text \<open>
  C9. With a provider, however \<^verbatim>\<open>connectWallet\<close> fails (a rejection of the
  accounts request with any code, no accounts, or an error from the network
  query), the store afterwards has neither the address nor the connection flag,
  whatever it held before.
\<close>

theorem connect_failure_clears_wallet_keys:
  assumes "ethereum env = Some p" and "fst (connectWallet env s) = ConnectFailure m"
  shows "getItem (localStorage (snd (connectWallet env s))) walletAddressItem = None
         \<and> getItem (localStorage (snd (connectWallet env s))) walletConnectionItem = None"
proof -
  obtain r s1 where a: "connectAttempt env p s = (r, s1)" by (cases "connectAttempt env p s")
  with assms have r: "r = ConnectFailure m" by (simp add: connectWallet_def)
  from connectAttempt_failure_clears a r
  have "getItem (localStorage s1) walletAddressItem = None
        \<and> getItem (localStorage s1) walletConnectionItem = None" by blast
  with assms(1) a show ?thesis by (simp add: connectWallet_def)
qed

theorem connect_failure_clears_wallet_keys_witness:
  "ethereum rejectedEnv
     = Some (upperProvider\<lparr>requestAccounts :=
         Inl \<lparr>code = Some 4001, errMessage = Some ''User rejected the request.''\<rparr>\<rparr>)
   \<and> fst (connectWallet rejectedEnv connectedHook)
       = ConnectFailure ''You rejected the connection request.''
   \<and> getItem (localStorage connectedHook) walletAddressItem = Some ''0xABC''
   \<and> getItem (localStorage connectedHook) walletConnectionItem = Some ''true''
   \<and> getItem (localStorage (snd (connectWallet rejectedEnv connectedHook))) walletAddressItem
       = None
   \<and> getItem (localStorage (snd (connectWallet rejectedEnv connectedHook)))
        walletConnectionItem = None"
proof -
  have a: "ethereum rejectedEnv
     = Some (upperProvider\<lparr>requestAccounts :=
         Inl \<lparr>code = Some 4001, errMessage = Some ''User rejected the request.''\<rparr>\<rparr>)"
    by (simp add: rejectedEnv_def)
  have b: "fst (connectWallet rejectedEnv connectedHook)
       = ConnectFailure ''You rejected the connection request.''"
    by (simp add: connectWallet_def connectAttempt_def connectFailed_def rejectedEnv_def
        upperProvider_def Let_def split: prod.splits)
  from connect_failure_clears_wallet_keys [OF a b] a b connectedHook_fields
  show ?thesis by simp
qed



section \<open>Properties of the response sanitizer\<close>

lemma withoutSensitive_filter:
  "withoutSensitive es = filter (\<lambda>e. fst e \<notin> {''ssn'', ''dateOfBirth'', ''fullName''}) es"
  by (simp add: withoutSensitive_def sensitive_def split_def)

lemma keysOf_assigned: "set (keysOf (assigned ents)) \<subseteq> fst ` set ents"
  by (auto simp: assigned_def keysOf_def)

lemma sanitizeResponse_truthy:
  "jsTruthy ops data \<Longrightarrow>
     sanitizeResponse ops data
       = assigned (map (\<lambda>(key, v). (key, sanitizeValue ops v))
                    (withoutSensitive (ownProperties data)))"
  by (simp add: sanitizeResponse_def Let_def)

text \<open>
  C10, as the code has it. Two objects that differ only in their own \<^verbatim>\<open>ssn\<close>,
  \<^verbatim>\<open>dateOfBirth\<close> and \<^verbatim>\<open>fullName\<close> properties have the same \<^verbatim>\<open>sanitizeResponse\<close>;
  the answer for a truthy input is an object, none of its own keys is one of the
  three, and the answer for a falsy input is \<^verbatim>\<open>null\<close>.
\<close>

theorem sanitizeResponse_drops_own_sensitive:
  "(differOnlyInSensitive es1 es2 \<longrightarrow>
      sanitizeResponse ops (JObj p1 es1) = sanitizeResponse ops (JObj p2 es2))
   \<and> (jsTruthy ops data \<longrightarrow> (\<exists>pr out. sanitizeResponse ops data = JObj pr out))
   \<and> set (keysOf (sanitizeResponse ops data)) \<inter> set sensitive = {}
   \<and> (\<not> jsTruthy ops data \<longrightarrow> sanitizeResponse ops data = JNull)"
proof (intro conjI impI)
  assume "differOnlyInSensitive es1 es2"
  then have "withoutSensitive es1 = withoutSensitive es2"
    by (simp add: differOnlyInSensitive_def withoutSensitive_filter)
  then show "sanitizeResponse ops (JObj p1 es1) = sanitizeResponse ops (JObj p2 es2)"
    by (simp add: sanitizeResponse_def jsTruthy_def ownProperties_def Let_def)
next
  assume "jsTruthy ops data"
  then show "\<exists>pr out. sanitizeResponse ops data = JObj pr out"
    by (simp add: sanitizeResponse_truthy assigned_def)
next
  show "set (keysOf (sanitizeResponse ops data)) \<inter> set sensitive = {}"
  proof (cases "jsTruthy ops data")
    case True
    have "fst ` set (map (\<lambda>(key, v). (key, sanitizeValue ops v))
                    (withoutSensitive (ownProperties data))) \<inter> set sensitive = {}"
      by (auto simp: withoutSensitive_def)
    with keysOf_assigned [of "map (\<lambda>(key, v). (key, sanitizeValue ops v))
                    (withoutSensitive (ownProperties data))"] True
    show ?thesis by (auto simp: sanitizeResponse_truthy)
  next
    case False
    then show ?thesis by (simp add: sanitizeResponse_def keysOf_def)
  qed
next
  assume "\<not> jsTruthy ops data"
  then show "sanitizeResponse ops data = JNull" by (simp add: sanitizeResponse_def)
qed

lemmas sanitize_defs = sanitizeResponse_def jsTruthy_def ownProperties_def withoutSensitive_def
  sensitive_def sanitizeString_def sanitizeNumber_def trim_def keysOf_def assigned_def
  settableAsPrototype_def

theorem sanitizeResponse_drops_own_sensitive_witness:
  "differOnlyInSensitive patientA patientB
   \<and> sanitizeResponse sampleOps (JObj None patientA)
       = sanitizeResponse sampleOps (JObj None patientB)
   \<and> jsTruthy sampleOps (JObj None patientA)
   \<and> keysOf (sanitizeResponse sampleOps (JObj None patientA)) = [''name'', ''age'', ''contact'']
   \<and> \<not> jsTruthy sampleOps (JStr [])
   \<and> sanitizeResponse sampleOps (JStr []) = JNull"
proof -
  have a: "differOnlyInSensitive patientA patientB"
    by (simp add: differOnlyInSensitive_def patientA_def patientB_def)
  have b: "jsTruthy sampleOps (JObj None patientA)" "\<not> jsTruthy sampleOps (JStr [])"
    by (simp_all add: jsTruthy_def)
  have c: "keysOf (sanitizeResponse sampleOps (JObj None patientA))
             = [''name'', ''age'', ''contact'']"
    by (simp add: sanitize_defs patientA_def sampleOps_def Let_def)
  from sanitizeResponse_drops_own_sensitive [of patientA patientB sampleOps None None "JStr []"]
    a b c
  show ?thesis by simp
qed

text \<open>
  C10, as stated, fails. The number under \<^verbatim>\<open>contact.ssn\<close> is in the answer as it
  was in the input; and for an input with an own \<^verbatim>\<open>__proto__\<close> property, reading
  \<^verbatim>\<open>ssn\<close> from the answer finds the number.
\<close>

theorem sanitizeResponse_exposes_counterexample:
  "sanitizeResponse sampleOps
       (JObj None [(''ssn'', JStr ''123-45-6789''),
                   (''contact'', JObj None [(''ssn'', JStr ''987-65-4321'')])])
     = JObj None [(''contact'', JObj None [(''ssn'', JStr ''987-65-4321'')])]
   \<and> sanitizeResponse sampleOps inheritedRecord
     = JObj (Some (JObj None [(''ssn'', JStr ''123-45-6789'')])) []
   \<and> readable ''ssn'' (sanitizeResponse sampleOps inheritedRecord)"
  by (simp add: sanitize_defs inheritedRecord_def sampleOps_def Let_def)

end
